theory Spec2Isabelle
  imports Main "HOL-Library.Word"
begin

section \<open>Go values\<close>

type_synonym byte = "8 word"

text \<open>A Go \<^verbatim>\<open>[]byte\<close>. The nil slice and the empty slice both have length 0 and are
  both the empty list: the code only ever takes \<^verbatim>\<open>len\<close> of a slice.\<close>

type_synonym bytes = "byte list"

text \<open>A Go \<^verbatim>\<open>error\<close> value, represented by the text its \<^verbatim>\<open>Error()\<close> method yields.
  A possibly nil error is an \<open>error option\<close>, \<open>None\<close> for nil. The accessors make their
  own errors with \<^verbatim>\<open>fmt.Errorf\<close> and the verb \<^verbatim>\<open>%v\<close>, which formats the cause into
  the new error's text: the text of \<^verbatim>\<open>fmt.Errorf("p: %v", err)\<close> is \<open>''p: '' @ err\<close>.\<close>

type_synonym error = string

text \<open>\<^verbatim>\<open>types.Hash\<close> is an array of 32 bytes.\<close>

typedef hash = "{bs :: byte list. length bs = 32}"
  by (rule exI [of _ "replicate 32 0"]) simp

text \<open>\<^verbatim>\<open>Hash.Bytes()\<close>: the 32 bytes of the array, as a slice.\<close>

definition Bytes :: "hash \<Rightarrow> bytes" where
  "Bytes h = Rep_hash h"

text \<open>The hash whose 32 bytes are all \<open>b\<close>.\<close>

definition fill_hash :: "byte \<Rightarrow> hash" where
  "fill_hash b = Abs_hash (replicate 32 b)"

section \<open>What the accessors import\<close>

text \<open>The key-value handle (\<^verbatim>\<open>kv.Getter\<close>, \<^verbatim>\<open>kv.RwTx\<close>), \<^verbatim>\<open>encoding/json\<close> at the type
  \<^verbatim>\<open>params.ChainConfig\<close> and the key prefix of package \<^verbatim>\<open>modules\<close> are not part of
  the file: the accessors take them as parameters. \<open>'db\<close> is the state behind the
  handle, \<open>'cfg\<close> is \<^verbatim>\<open>params.ChainConfig\<close>. A Go call that returns a pair returns a
  pair here; \<^verbatim>\<open>Put\<close> returns the state after the call beside its error, and
  \<^verbatim>\<open>json.Unmarshal(data, &config)\<close> returns the config it has filled in beside its
  error (it may have filled in a part of it when it fails).\<close>

record ('db, 'cfg) deps =
  GetOne :: "'db \<Rightarrow> string \<Rightarrow> bytes \<Rightarrow> bytes \<times> error option"
  Put :: "'db \<Rightarrow> string \<Rightarrow> bytes \<Rightarrow> bytes \<Rightarrow> 'db \<times> error option"
  Marshal :: "'cfg \<Rightarrow> bytes \<times> error option"
  Unmarshal :: "bytes \<Rightarrow> 'cfg \<Rightarrow> 'cfg \<times> error option"
  zero_ChainConfig :: "'cfg"
  ConfigPrefix :: bytes

text \<open>Modelled from the spec: the table name \<^verbatim>\<open>modules.ChainConfig\<close>, whose declaration
  is missing; the spec gives \<^verbatim>\<open>tableName = "ChainConfig"\<close>.\<close>

definition ChainConfig_table :: string where
  "ChainConfig_table = ''ChainConfig''"

text \<open>Modelled from the spec: \<^verbatim>\<open>modules.ConfigKey\<close>, whose body is missing; the spec
  gives \<^verbatim>\<open>key = fixedPrefix || genesisHashBytes\<close>. The prefix itself is a parameter.\<close>

definition ConfigKey :: "bytes \<Rightarrow> hash \<Rightarrow> bytes" where
  "ConfigKey prefix h = prefix @ Bytes h"

section \<open>The accessors\<close>

text \<open>\<^verbatim>\<open>ReadChainConfig(db, hash)\<close> returns the Go pair \<^verbatim>\<open>(*params.ChainConfig, error)\<close>:
  a possibly nil pointer and a possibly nil error.\<close>

definition ReadChainConfig ::
  "('db, 'cfg) deps \<Rightarrow> 'db \<Rightarrow> hash \<Rightarrow> 'cfg option \<times> error option" where
  "ReadChainConfig d db h =
     (case GetOne d db ChainConfig_table (ConfigKey (ConfigPrefix d) h) of
        (data, Some err) \<Rightarrow> (None, Some (''fetch ChainConfig from db ,error: '' @ err))
      | (data, None) \<Rightarrow>
          if length data = 0 then (None, Some ''ChainConfig are empty'')
          else
            (case Unmarshal d data (zero_ChainConfig d) of
               (config, Some err) \<Rightarrow> (None, Some (''invalid chain config JSON err: '' @ err))
             | (config, None) \<Rightarrow> (Some config, None)))"

text \<open>A line of \<^verbatim>\<open>log.Error(msg, "err", err)\<close>: the message and the error logged.\<close>

type_synonym log_line = "string \<times> error"

text \<open>\<^verbatim>\<open>WriteChainConfig(db, hash, cfg)\<close> returns the state behind the handle after the
  call, the lines it has logged, and its error. \<open>cfg\<close> is a pointer: \<open>None\<close> is nil.\<close>

definition WriteChainConfig ::
  "('db, 'cfg) deps \<Rightarrow> 'db \<Rightarrow> hash \<Rightarrow> 'cfg option \<Rightarrow> 'db \<times> log_line list \<times> error option" where
  "WriteChainConfig d db h cfg =
     (case cfg of
        None \<Rightarrow> (db, [], Some ''invalid cfg'')
      | Some c \<Rightarrow>
          (case Marshal d c of
             (data, Some err) \<Rightarrow>
               (db, [(''Failed to JSON encode chain config'', err)], Some err)
           | (data, None) \<Rightarrow>
               (case Put d db ChainConfig_table (ConfigKey (ConfigPrefix d) h) data of
                  (db', Some err) \<Rightarrow> (db', [(''Failed to store chain config'', err)], Some err)
                | (db', None) \<Rightarrow> (db', [], None))))"

section \<open>A store that is a key-value map\<close>

text \<open>The store the round-trip properties are about: one cell for each table and key.
  A lookup of a key that was never put yields no bytes and no error.\<close>

type_synonym memdb = "string \<times> bytes \<rightharpoonup> bytes"

definition mem_GetOne :: "memdb \<Rightarrow> string \<Rightarrow> bytes \<Rightarrow> bytes \<times> error option" where
  "mem_GetOne db table k = (case db (table, k) of None \<Rightarrow> ([], None) | Some v \<Rightarrow> (v, None))"

definition mem_Put :: "memdb \<Rightarrow> string \<Rightarrow> bytes \<Rightarrow> bytes \<Rightarrow> memdb \<times> error option" where
  "mem_Put db table k v = (db((table, k) \<mapsto> v), None)"

text \<open>The encoding is lossless at \<open>c\<close>: when \<open>c\<close> encodes, its bytes are not empty and
  decode, into a zero-valued config, to \<open>c\<close> again.\<close>

definition lossless_at :: "('db, 'cfg) deps \<Rightarrow> 'cfg \<Rightarrow> bool" where
  "lossless_at d c =
     (case Marshal d c of
        (data, Some err) \<Rightarrow> True
      | (data, None) \<Rightarrow> data \<noteq> [] \<and> Unmarshal d data (zero_ChainConfig d) = (c, None))"

section \<open>Concrete instances\<close>

text \<open>A small encoding on configs that are byte strings: the bytes between braces.\<close>

definition brace_Marshal :: "bytes \<Rightarrow> bytes \<times> error option" where
  "brace_Marshal c = (0x7B # c @ [0x7D], None)"

definition brace_Unmarshal :: "bytes \<Rightarrow> bytes \<Rightarrow> bytes \<times> error option" where
  "brace_Unmarshal data config =
     (if 2 \<le> length data \<and> hd data = 0x7B \<and> last data = 0x7D
      then (butlast (tl data), None)
      else (take (length data - 1) (tl data), Some ''unexpected end of JSON input''))"

definition mem_deps :: "(memdb, bytes) deps" where
  "mem_deps = \<lparr>GetOne = mem_GetOne, Put = mem_Put, Marshal = brace_Marshal,
     Unmarshal = brace_Unmarshal, zero_ChainConfig = [], ConfigPrefix = [0x63, 0x66, 0x67]\<rparr>"

text \<open>A store that is down: every call fails, and the state counts the calls made.\<close>

definition down_deps :: "(nat, bytes) deps" where
  "down_deps = \<lparr>GetOne = (\<lambda>n table k. ([], Some ''EIO'')),
     Put = (\<lambda>n table k v. (Suc n, Some ''EIO'')), Marshal = brace_Marshal,
     Unmarshal = brace_Unmarshal, zero_ChainConfig = [], ConfigPrefix = [0x63, 0x66, 0x67]\<rparr>"

text \<open>An encoder that fails, over the store that is down.\<close>

definition unencodable_deps :: "(nat, bytes) deps" where
  "unencodable_deps = down_deps\<lparr>Marshal := (\<lambda>c. ([], Some ''json: unsupported value''))\<rparr>"

section \<open>The node configuration and its keystore directory\<close>

text \<open>Go's \<^verbatim>\<open>int\<close> is a 64-bit machine integer.\<close>

record NodeConfig =
  NodePrivate :: string
  HTTP :: bool
  HTTPHost :: string
  HTTPPort :: string
  HTTPApi :: string
  HTTPCors :: string
  WS :: bool
  WSHost :: string
  WSPort :: string
  WSApi :: string
  WSOrigins :: string
  IPCPath :: string
  DataDir :: string
  MinFreeDiskSpace :: "64 word"
  Chain :: string
  Miner :: bool
  AuthRPC :: bool
  AuthAddr :: string
  AuthPort :: "64 word"
  AuthVirtualHosts :: "string list"
  JWTSecret :: string
  KeyStoreDir :: string
  ExternalSigner :: string
  UseLightweightKDF :: bool
  InsecureUnlockAllowed :: bool
  PasswordFile :: string

definition datadirDefaultKeyStore :: string where
  "datadirDefaultKeyStore = ''keystore''"

text \<open>The functions of \<^verbatim>\<open>path/filepath\<close> and \<^verbatim>\<open>os\<close> that the resolution calls, as
  parameters; \<open>'fs\<close> is the state of the file system and of the process (its working
  directory, which \<^verbatim>\<open>filepath.Abs\<close> reads). The two calls that create directories
  return the state after the call.\<close>

record 'fs os_deps =
  filepath_IsAbs :: "string \<Rightarrow> bool"
  filepath_Join :: "string list \<Rightarrow> string"
  filepath_Abs :: "'fs \<Rightarrow> string \<Rightarrow> string \<times> error option"
  os_MkdirTemp :: "'fs \<Rightarrow> string \<Rightarrow> string \<Rightarrow> (string \<times> error option) \<times> 'fs"
  os_MkdirAll :: "'fs \<Rightarrow> string \<Rightarrow> nat \<Rightarrow> error option \<times> 'fs"

text \<open>\<^verbatim>\<open>KeyDirConfig\<close>: the switch takes the first case whose condition holds; when none
  does, \<^verbatim>\<open>keydir\<close> and \<^verbatim>\<open>err\<close> keep their zero values.\<close>

definition KeyDirConfig :: "'fs os_deps \<Rightarrow> 'fs \<Rightarrow> NodeConfig \<Rightarrow> string \<times> error option" where
  "KeyDirConfig os fs c =
     (if filepath_IsAbs os (KeyStoreDir c) then (KeyStoreDir c, None)
      else if DataDir c \<noteq> [] then
        (if KeyStoreDir c = [] then (filepath_Join os [DataDir c, datadirDefaultKeyStore], None)
         else filepath_Abs os fs (KeyStoreDir c))
      else if KeyStoreDir c \<noteq> [] then filepath_Abs os fs (KeyStoreDir c)
      else ([], None))"

text \<open>\<^verbatim>\<open>getKeyStoreDir\<close> returns the Go triple \<^verbatim>\<open>(string, bool, error)\<close> and the state of
  the file system after the call. The permission \<^verbatim>\<open>0700\<close> is octal.\<close>

definition getKeyStoreDir ::
  "'fs os_deps \<Rightarrow> 'fs \<Rightarrow> NodeConfig \<Rightarrow> (string \<times> bool \<times> error option) \<times> 'fs" where
  "getKeyStoreDir os fs conf =
     (case KeyDirConfig os fs conf of
        (keydir, Some err) \<Rightarrow> (([], False, Some err), fs)
      | (keydir, None) \<Rightarrow>
          (case (if keydir = []
                 then (case os_MkdirTemp os fs [] ''N42-keystore'' of
                         ((tmp, err), fs1) \<Rightarrow> (tmp, err, True, fs1))
                 else (keydir, None, False, fs)) of
             (keydir, Some err, isEphemeral, fs1) \<Rightarrow> (([], False, Some err), fs1)
           | (keydir, None, isEphemeral, fs1) \<Rightarrow>
               (case os_MkdirAll os fs1 keydir 448 of
                  (Some err, fs2) \<Rightarrow> (([], False, Some err), fs2)
                | (None, fs2) \<Rightarrow> ((keydir, isEphemeral, None), fs2))))"

definition ExtRPCEnabled :: "NodeConfig \<Rightarrow> bool" where
  "ExtRPCEnabled c = (HTTPHost c \<noteq> [] \<or> WSHost c \<noteq> [])"

text \<open>What the resolution relies on in \<^verbatim>\<open>path/filepath\<close>: the empty path is not
  absolute, joining a non-empty directory with a name is not empty, and a path that
  \<^verbatim>\<open>Abs\<close> returns without error is not empty.\<close>

definition filepath_ok :: "'fs os_deps \<Rightarrow> 'fs \<Rightarrow> NodeConfig \<Rightarrow> bool" where
  "filepath_ok os fs c =
     (\<not> filepath_IsAbs os [] \<and>
      (DataDir c = [] \<or> filepath_Join os [DataDir c, datadirDefaultKeyStore] \<noteq> []) \<and>
      (case filepath_Abs os fs (KeyStoreDir c) of
         (p, None) \<Rightarrow> p \<noteq> []
       | (p, Some err) \<Rightarrow> True))"

subsection \<open>A small file system\<close>

text \<open>The directories that exist, the working directory, and whether directories can
  be created. Paths are Unix paths; \<open>unix_Join\<close> joins the non-empty elements with a
  slash and does not clean the result.\<close>

record fs =
  dirs :: "string list"
  cwd :: string
  writable :: bool

definition unix_IsAbs :: "string \<Rightarrow> bool" where
  "unix_IsAbs p = (case p of [] \<Rightarrow> False | ch # _ \<Rightarrow> ch = CHR ''/'')"

fun unix_Join :: "string list \<Rightarrow> string" where
  "unix_Join [] = []"
| "unix_Join (e # es) =
     (if e = [] then unix_Join es
      else if unix_Join es = [] then e
      else e @ ''/'' @ unix_Join es)"

definition unix_Abs :: "fs \<Rightarrow> string \<Rightarrow> string \<times> error option" where
  "unix_Abs s p =
     (if unix_IsAbs p then (p, None)
      else if cwd s = [] then ([], Some ''getwd: no such file or directory'')
      else (unix_Join [cwd s, p], None))"

definition fs_MkdirTemp :: "fs \<Rightarrow> string \<Rightarrow> string \<Rightarrow> (string \<times> error option) \<times> fs" where
  "fs_MkdirTemp s dir pattern =
     (if writable s
      then (let name = unix_Join [if dir = [] then ''/tmp'' else dir, pattern @ ''1'']
            in ((name, None), s\<lparr>dirs := name # dirs s\<rparr>))
      else (([], Some ''mkdir: read-only file system''), s))"

definition fs_MkdirAll :: "fs \<Rightarrow> string \<Rightarrow> nat \<Rightarrow> error option \<times> fs" where
  "fs_MkdirAll s path perm =
     (if path \<in> set (dirs s) then (None, s)
      else if writable s then (None, s\<lparr>dirs := path # dirs s\<rparr>)
      else (Some ''mkdir: read-only file system'', s))"

definition unix_os :: "fs os_deps" where
  "unix_os = \<lparr>filepath_IsAbs = unix_IsAbs, filepath_Join = unix_Join,
     filepath_Abs = unix_Abs, os_MkdirTemp = fs_MkdirTemp, os_MkdirAll = fs_MkdirAll\<rparr>"

text \<open>Two states of it: one where directories can be created, one that is read-only.\<close>

definition writable_fs :: fs where
  "writable_fs = \<lparr>dirs = [], cwd = ''/home'', writable = True\<rparr>"

definition readonly_fs :: fs where
  "readonly_fs = \<lparr>dirs = [], cwd = ''/home'', writable = False\<rparr>"

text \<open>A state whose working directory is gone, so that \<open>unix_Abs\<close> fails on a relative
  path; and an \<open>os\<close> whose \<open>MkdirAll\<close> is always refused.\<close>

definition lost_fs :: fs where
  "lost_fs = \<lparr>dirs = [], cwd = [], writable = True\<rparr>"

definition denied_os :: "fs os_deps" where
  "denied_os = unix_os\<lparr>os_MkdirAll := (\<lambda>s path perm. (Some ''mkdir: permission denied'', s))\<rparr>"

text \<open>The zero value of \<^verbatim>\<open>NodeConfig\<close>.\<close>

definition zero_NodeConfig :: NodeConfig where
  "zero_NodeConfig = \<lparr>NodePrivate = [], HTTP = False, HTTPHost = [], HTTPPort = [],
     HTTPApi = [], HTTPCors = [], WS = False, WSHost = [], WSPort = [], WSApi = [],
     WSOrigins = [], IPCPath = [], DataDir = [], MinFreeDiskSpace = 0, Chain = [],
     Miner = False, AuthRPC = False, AuthAddr = [], AuthPort = 0, AuthVirtualHosts = [],
     JWTSecret = [], KeyStoreDir = [], ExternalSigner = [], UseLightweightKDF = False,
     InsecureUnlockAllowed = False, PasswordFile = []\<rparr>"

section \<open>Facts about hashes and the store\<close>

lemma Abs_hash_Rep_hash [code abstype]: "Abs_hash (Rep_hash h) = h"
  by (rule Rep_hash_inverse)

lemma Rep_hash_fill_hash [code abstract]: "Rep_hash (fill_hash b) = replicate 32 b"
  by (simp add: fill_hash_def Abs_hash_inverse)

lemma length_Bytes: "length (Bytes h) = 32"
  using Rep_hash [of h] by (simp add: Bytes_def)

lemma Bytes_fill_hash: "Bytes (fill_hash b) = replicate 32 b"
  by (simp add: Bytes_def Rep_hash_fill_hash)

lemma Bytes_inject: "Bytes h1 = Bytes h2 \<longleftrightarrow> h1 = h2"
  by (simp add: Bytes_def Rep_hash_inject)

lemma ConfigKey_inject: "ConfigKey p h1 = ConfigKey p h2 \<longleftrightarrow> h1 = h2"
  by (simp add: ConfigKey_def Bytes_inject)

lemma fill_hash_inject: "fill_hash a = fill_hash b \<longleftrightarrow> a = b"
  by (simp add: fill_hash_def Abs_hash_inject)

lemma mem_GetOne_Put:
  "mem_GetOne (fst (mem_Put db table k v)) table' k' =
     (if (table', k') = (table, k) then (v, None) else mem_GetOne db table' k')"
  by (simp add: mem_GetOne_def mem_Put_def)

lemma mem_deps_simps:
  "GetOne mem_deps = mem_GetOne" "Put mem_deps = mem_Put" "Marshal mem_deps = brace_Marshal"
  "Unmarshal mem_deps = brace_Unmarshal" "zero_ChainConfig mem_deps = []"
  "ConfigPrefix mem_deps = [0x63, 0x66, 0x67]"
  by (simp_all add: mem_deps_def)

lemma down_deps_simps:
  "GetOne down_deps = (\<lambda>n table k. ([], Some ''EIO''))"
  "Put down_deps = (\<lambda>n table k v. (Suc n, Some ''EIO''))" "Marshal down_deps = brace_Marshal"
  "Unmarshal down_deps = brace_Unmarshal" "zero_ChainConfig down_deps = []"
  "ConfigPrefix down_deps = [0x63, 0x66, 0x67]"
  by (simp_all add: down_deps_def)

lemma brace_roundtrip: "brace_Unmarshal (fst (brace_Marshal c)) z = (c, None)"
  by (simp add: brace_Marshal_def brace_Unmarshal_def butlast_append)

lemma lossless_at_mem_deps: "lossless_at mem_deps c"
  using brace_roundtrip [of c "[]"]
  by (simp add: lossless_at_def mem_deps_simps brace_Marshal_def)

text \<open>A write that returns no error has encoded the config and put its bytes under
  the key of the hash, once.\<close>

lemma WriteChainConfig_ok:
  assumes "WriteChainConfig d db h (Some c) = (db', logged, None)"
  shows "\<exists>data. Marshal d c = (data, None) \<and>
           Put d db ChainConfig_table (ConfigKey (ConfigPrefix d) h) data = (db', None) \<and>
           logged = []"
  using assms by (auto simp: WriteChainConfig_def split: prod.splits option.splits)

lemma WriteChainConfig_mem:
  assumes "Put d = mem_Put" and "Marshal d c = (data, None)"
  shows "WriteChainConfig d db h (Some c) =
           (db((ChainConfig_table, ConfigKey (ConfigPrefix d) h) \<mapsto> data), [], None)"
  using assms by (simp add: WriteChainConfig_def mem_Put_def)

lemma ReadChainConfig_mem:
  assumes "GetOne d = mem_GetOne"
    and "db (ChainConfig_table, ConfigKey (ConfigPrefix d) h) = Some data"
    and "data \<noteq> []" and "Unmarshal d data (zero_ChainConfig d) = (c, None)"
  shows "ReadChainConfig d db h = (Some c, None)"
  using assms by (simp add: ReadChainConfig_def mem_GetOne_def)

lemma ReadChainConfig_mem_cong:
  assumes "GetOne d = mem_GetOne"
    and "db1 (ChainConfig_table, ConfigKey (ConfigPrefix d) h) =
         db2 (ChainConfig_table, ConfigKey (ConfigPrefix d) h)"
  shows "ReadChainConfig d db1 h = ReadChainConfig d db2 h"
  using assms by (simp add: ReadChainConfig_def mem_GetOne_def)

lemma WriteChainConfig_mem_other:
  assumes "Put d = mem_Put" and "k \<noteq> (ChainConfig_table, ConfigKey (ConfigPrefix d) h)"
  shows "fst (WriteChainConfig d db h cfg) k = db k"
  using assms
  by (auto simp: WriteChainConfig_def mem_Put_def split: prod.splits option.splits)

lemma ReadChainConfig_fetch_error:
  assumes "GetOne d db ChainConfig_table (ConfigKey (ConfigPrefix d) h) = (data, Some err)"
  shows "ReadChainConfig d db h = (None, Some (''fetch ChainConfig from db ,error: '' @ err))"
  using assms by (simp add: ReadChainConfig_def)

lemma ReadChainConfig_decode_error:
  assumes "GetOne d db ChainConfig_table (ConfigKey (ConfigPrefix d) h) = (data, None)"
    and "data \<noteq> []"
    and "Unmarshal d data (zero_ChainConfig d) = (partial, Some err)"
  shows "ReadChainConfig d db h = (None, Some (''invalid chain config JSON err: '' @ err))"
  using assms by (simp add: ReadChainConfig_def)

section \<open>The claims\<close>

text \<open>C1. Round trip. On a store that is a key-value map and for a config \<open>c\<close> whose
  encoding is lossless, when \<open>WriteChainConfig db h c\<close> returns no error, a following
  \<open>ReadChainConfig\<close> of \<open>h\<close> returns the config \<open>c\<close> and no error.\<close>

theorem ReadChainConfig_WriteChainConfig:
  assumes "GetOne d = mem_GetOne" and "Put d = mem_Put"
    and "lossless_at d c"
    and "WriteChainConfig d db h (Some c) = (db', logged, None)"
  shows "ReadChainConfig d db' h = (Some c, None)"
proof -
  from WriteChainConfig_ok [OF assms(4)] obtain data where
    m: "Marshal d c = (data, None)" and
    p: "Put d db ChainConfig_table (ConfigKey (ConfigPrefix d) h) data = (db', None)"
    by blast
  from p assms(2) have db': "db' = db((ChainConfig_table, ConfigKey (ConfigPrefix d) h) \<mapsto> data)"
    by (simp add: mem_Put_def)
  from assms(3) m have "data \<noteq> []" and "Unmarshal d data (zero_ChainConfig d) = (c, None)"
    by (simp_all add: lossless_at_def)
  then show ?thesis
    using ReadChainConfig_mem [OF assms(1), of db' h data c] by (simp add: db')
qed

theorem ReadChainConfig_WriteChainConfig_witness:
  "GetOne mem_deps = mem_GetOne \<and> Put mem_deps = mem_Put \<and> lossless_at mem_deps [1, 2] \<and>
   WriteChainConfig mem_deps Map.empty (fill_hash 0) (Some [1, 2]) =
     ([(ChainConfig_table, ConfigKey [0x63, 0x66, 0x67] (fill_hash 0)) \<mapsto> [0x7B, 1, 2, 0x7D]],
      [], None) \<and>
   ReadChainConfig mem_deps
     [(ChainConfig_table, ConfigKey [0x63, 0x66, 0x67] (fill_hash 0)) \<mapsto> [0x7B, 1, 2, 0x7D]]
     (fill_hash 0) = (Some [1, 2], None)"
proof -
  have w: "WriteChainConfig mem_deps Map.empty (fill_hash 0) (Some [1, 2]) =
     ([(ChainConfig_table, ConfigKey [0x63, 0x66, 0x67] (fill_hash 0)) \<mapsto> [0x7B, 1, 2, 0x7D]],
      [], None)"
    by (simp add: WriteChainConfig_def mem_deps_simps brace_Marshal_def mem_Put_def)
  show ?thesis
    using ReadChainConfig_WriteChainConfig
      [OF mem_deps_simps(1) mem_deps_simps(2) lossless_at_mem_deps w] w
    by (simp add: mem_deps_simps lossless_at_mem_deps)
qed

text \<open>C2. Isolation. The keys of two distinct hashes differ, and on a store that is a
  key-value map a \<open>WriteChainConfig\<close> under \<open>h1\<close>, whatever it is given and however it
  ends, leaves what \<open>ReadChainConfig\<close> returns under \<open>h2\<close> as it was.\<close>

theorem WriteChainConfig_isolation:
  assumes "h1 \<noteq> h2" and "GetOne d = mem_GetOne" and "Put d = mem_Put"
  shows "ConfigKey p h1 \<noteq> ConfigKey p h2 \<and>
         ReadChainConfig d (fst (WriteChainConfig d db h1 cfg)) h2 = ReadChainConfig d db h2"
proof
  show "ConfigKey p h1 \<noteq> ConfigKey p h2"
    using assms(1) by (simp add: ConfigKey_inject)
  have "(ChainConfig_table, ConfigKey (ConfigPrefix d) h2) \<noteq>
        (ChainConfig_table, ConfigKey (ConfigPrefix d) h1)"
    using assms(1) by (simp add: ConfigKey_inject)
  then show "ReadChainConfig d (fst (WriteChainConfig d db h1 cfg)) h2 = ReadChainConfig d db h2"
    using ReadChainConfig_mem_cong [OF assms(2)] WriteChainConfig_mem_other [OF assms(3)]
    by blast
qed

theorem WriteChainConfig_isolation_witness:
  "fill_hash 1 \<noteq> fill_hash 2 \<and> GetOne mem_deps = mem_GetOne \<and> Put mem_deps = mem_Put \<and>
   ConfigKey [0x63, 0x66, 0x67] (fill_hash 1) \<noteq> ConfigKey [0x63, 0x66, 0x67] (fill_hash 2) \<and>
   ReadChainConfig mem_deps
     (fst (WriteChainConfig mem_deps Map.empty (fill_hash 1) (Some [7]))) (fill_hash 2) =
   ReadChainConfig mem_deps Map.empty (fill_hash 2)"
proof -
  have ne: "fill_hash 1 \<noteq> fill_hash 2"
    by (simp add: fill_hash_inject)
  show ?thesis
    using WriteChainConfig_isolation [OF ne mem_deps_simps(1) mem_deps_simps(2),
        of "[0x63, 0x66, 0x67]" Map.empty "Some [7]"] ne
    by (simp add: mem_deps_simps)
qed

text \<open>C3. Overwrite. On a store that is a key-value map, after \<open>WriteChainConfig\<close> of
  \<open>c1\<close> and then of \<open>c2\<close> under the same hash, both without error, \<open>ReadChainConfig\<close>
  returns \<open>c2\<close> (so not \<open>c1\<close>, when the two differ), and the store is the one a single
  write of \<open>c2\<close> would have left: the second record has replaced the first.\<close>

theorem WriteChainConfig_overwrite:
  assumes "GetOne d = mem_GetOne" and "Put d = mem_Put"
    and "lossless_at d c2"
    and "WriteChainConfig d db h (Some c1) = (db1, logged1, None)"
    and "WriteChainConfig d db1 h (Some c2) = (db2, logged2, None)"
  shows "ReadChainConfig d db2 h = (Some c2, None) \<and>
         (c1 = c2 \<or> ReadChainConfig d db2 h \<noteq> (Some c1, None)) \<and>
         WriteChainConfig d db h (Some c2) = (db2, [], None)"
proof -
  from WriteChainConfig_ok [OF assms(4)] obtain data1 where
    m1: "Marshal d c1 = (data1, None)" by blast
  from WriteChainConfig_ok [OF assms(5)] obtain data2 where
    m2: "Marshal d c2 = (data2, None)" by blast
  have db1: "db1 = db((ChainConfig_table, ConfigKey (ConfigPrefix d) h) \<mapsto> data1)"
    using assms(4) WriteChainConfig_mem [OF assms(2) m1, of db h] by simp
  have db2: "db2 = db1((ChainConfig_table, ConfigKey (ConfigPrefix d) h) \<mapsto> data2)"
    using assms(5) WriteChainConfig_mem [OF assms(2) m2, of db1 h] by simp
  have once: "WriteChainConfig d db h (Some c2) = (db2, [], None)"
    using WriteChainConfig_mem [OF assms(2) m2, of db h] by (simp add: db1 db2)
  from assms(3) m2 have "data2 \<noteq> []" and "Unmarshal d data2 (zero_ChainConfig d) = (c2, None)"
    by (simp_all add: lossless_at_def)
  then have r: "ReadChainConfig d db2 h = (Some c2, None)"
    using ReadChainConfig_mem [OF assms(1), of db2 h data2 c2] by (simp add: db2)
  from r once show ?thesis by auto
qed

theorem WriteChainConfig_overwrite_witness:
  "GetOne mem_deps = mem_GetOne \<and> Put mem_deps = mem_Put \<and> lossless_at mem_deps [9] \<and>
   WriteChainConfig mem_deps Map.empty (fill_hash 0) (Some [1, 2]) =
     ([(ChainConfig_table, ConfigKey [0x63, 0x66, 0x67] (fill_hash 0)) \<mapsto> [0x7B, 1, 2, 0x7D]],
      [], None) \<and>
   WriteChainConfig mem_deps
     [(ChainConfig_table, ConfigKey [0x63, 0x66, 0x67] (fill_hash 0)) \<mapsto> [0x7B, 1, 2, 0x7D]]
     (fill_hash 0) (Some [9]) =
     ([(ChainConfig_table, ConfigKey [0x63, 0x66, 0x67] (fill_hash 0)) \<mapsto> [0x7B, 9, 0x7D]],
      [], None) \<and>
   ReadChainConfig mem_deps
     [(ChainConfig_table, ConfigKey [0x63, 0x66, 0x67] (fill_hash 0)) \<mapsto> [0x7B, 9, 0x7D]]
     (fill_hash 0) = (Some [9], None) \<and>
   ReadChainConfig mem_deps
     [(ChainConfig_table, ConfigKey [0x63, 0x66, 0x67] (fill_hash 0)) \<mapsto> [0x7B, 9, 0x7D]]
     (fill_hash 0) \<noteq> (Some [1, 2], None) \<and>
   WriteChainConfig mem_deps Map.empty (fill_hash 0) (Some [9]) =
     ([(ChainConfig_table, ConfigKey [0x63, 0x66, 0x67] (fill_hash 0)) \<mapsto> [0x7B, 9, 0x7D]],
      [], None)"
proof -
  have w1: "WriteChainConfig mem_deps Map.empty (fill_hash 0) (Some [1, 2]) =
     ([(ChainConfig_table, ConfigKey [0x63, 0x66, 0x67] (fill_hash 0)) \<mapsto> [0x7B, 1, 2, 0x7D]],
      [], None)"
    by (simp add: WriteChainConfig_def mem_deps_simps brace_Marshal_def mem_Put_def)
  have w2: "WriteChainConfig mem_deps
     [(ChainConfig_table, ConfigKey [0x63, 0x66, 0x67] (fill_hash 0)) \<mapsto> [0x7B, 1, 2, 0x7D]]
     (fill_hash 0) (Some [9]) =
     ([(ChainConfig_table, ConfigKey [0x63, 0x66, 0x67] (fill_hash 0)) \<mapsto> [0x7B, 9, 0x7D]],
      [], None)"
    by (simp add: WriteChainConfig_def mem_deps_simps brace_Marshal_def mem_Put_def)
  show ?thesis
    using WriteChainConfig_overwrite
      [OF mem_deps_simps(1) mem_deps_simps(2) lossless_at_mem_deps w1 w2] w1 w2
    by (simp add: mem_deps_simps lossless_at_mem_deps)
qed

text \<open>C4. Not found. When the lookup under the key of \<open>h\<close> yields no error and zero
  bytes, \<open>ReadChainConfig\<close> returns no config and the error \<open>ChainConfig are empty\<close>;
  that error differs from the one of every read whose lookup fails and from the one of
  every read whose bytes fail to decode.\<close>

theorem ReadChainConfig_NotFound:
  assumes "GetOne d db ChainConfig_table (ConfigKey (ConfigPrefix d) h) = (data, None)"
    and "length data = 0"
  shows "ReadChainConfig d db h = (None, Some ''ChainConfig are empty'') \<and>
         (GetOne d1 db1 ChainConfig_table (ConfigKey (ConfigPrefix d1) h1) = (data1, Some err1) \<longrightarrow>
            snd (ReadChainConfig d1 db1 h1) \<noteq> snd (ReadChainConfig d db h)) \<and>
         (GetOne d2 db2 ChainConfig_table (ConfigKey (ConfigPrefix d2) h2) = (data2, None) \<and>
          data2 \<noteq> [] \<and> Unmarshal d2 data2 (zero_ChainConfig d2) = (partial, Some err2) \<longrightarrow>
            snd (ReadChainConfig d2 db2 h2) \<noteq> snd (ReadChainConfig d db h))"
proof -
  have r: "ReadChainConfig d db h = (None, Some ''ChainConfig are empty'')"
    using assms by (simp add: ReadChainConfig_def)
  show ?thesis
    by (auto simp: r ReadChainConfig_fetch_error ReadChainConfig_decode_error)
qed

theorem ReadChainConfig_NotFound_witness:
  "GetOne mem_deps Map.empty ChainConfig_table (ConfigKey (ConfigPrefix mem_deps) (fill_hash 0)) =
     ([], None) \<and>
   length ([] :: bytes) = 0 \<and>
   ReadChainConfig mem_deps Map.empty (fill_hash 0) = (None, Some ''ChainConfig are empty'') \<and>
   GetOne down_deps 0 ChainConfig_table (ConfigKey (ConfigPrefix down_deps) (fill_hash 0)) =
     ([], Some ''EIO'') \<and>
   snd (ReadChainConfig down_deps 0 (fill_hash 0)) \<noteq>
     snd (ReadChainConfig mem_deps Map.empty (fill_hash 0)) \<and>
   GetOne mem_deps
     [(ChainConfig_table, ConfigKey [0x63, 0x66, 0x67] (fill_hash 0)) \<mapsto> [0x7B, 1, 2]]
     ChainConfig_table (ConfigKey (ConfigPrefix mem_deps) (fill_hash 0)) = ([0x7B, 1, 2], None) \<and>
   Unmarshal mem_deps [0x7B, 1, 2] (zero_ChainConfig mem_deps) =
     ([1, 2], Some ''unexpected end of JSON input'') \<and>
   snd (ReadChainConfig mem_deps
          [(ChainConfig_table, ConfigKey [0x63, 0x66, 0x67] (fill_hash 0)) \<mapsto> [0x7B, 1, 2]]
          (fill_hash 0)) \<noteq>
     snd (ReadChainConfig mem_deps Map.empty (fill_hash 0))"
proof -
  have g: "GetOne mem_deps Map.empty ChainConfig_table
             (ConfigKey (ConfigPrefix mem_deps) (fill_hash 0)) = ([], None)"
    by (simp add: mem_deps_simps mem_GetOne_def)
  have l: "length ([] :: bytes) = 0"
    by simp
  have g1: "GetOne down_deps 0 ChainConfig_table
              (ConfigKey (ConfigPrefix down_deps) (fill_hash 0)) = ([], Some ''EIO'')"
    by (simp add: down_deps_simps)
  have g2: "GetOne mem_deps
              [(ChainConfig_table, ConfigKey [0x63, 0x66, 0x67] (fill_hash 0)) \<mapsto> [0x7B, 1, 2]]
              ChainConfig_table (ConfigKey (ConfigPrefix mem_deps) (fill_hash 0)) =
            ([0x7B, 1, 2], None)"
    by (simp add: mem_deps_simps mem_GetOne_def)
  have u2: "Unmarshal mem_deps [0x7B, 1, 2] (zero_ChainConfig mem_deps) =
              ([1, 2], Some ''unexpected end of JSON input'')"
    by (simp add: mem_deps_simps brace_Unmarshal_def)
  from ReadChainConfig_NotFound [OF g l,
      where ?d1.0 = down_deps and ?db1.0 = 0 and ?h1.0 = "fill_hash 0" and ?data1.0 = "[]"
        and ?err1.0 = "''EIO''" and ?d2.0 = mem_deps
        and ?db2.0 = "[(ChainConfig_table, ConfigKey [0x63, 0x66, 0x67] (fill_hash 0)) \<mapsto>
                        [0x7B, 1, 2]]"
        and ?h2.0 = "fill_hash 0" and ?data2.0 = "[0x7B, 1, 2]" and ?partial = "[1, 2]"
        and ?err2.0 = "''unexpected end of JSON input''"]
    g l g1 g2 u2
  show ?thesis
    by blast
qed

text \<open>C5. A nil config. \<open>WriteChainConfig\<close> of a nil config returns the error
  \<open>invalid cfg\<close>, logs nothing and returns the state of the store it was given, for
  every \<open>Put\<close> and \<open>GetOne\<close> the handle may have (so it has called neither); on an empty
  key-value map a following \<open>ReadChainConfig\<close> still returns \<open>ChainConfig are empty\<close>.\<close>

theorem WriteChainConfig_nil:
  "WriteChainConfig d db h None = (db, [], Some ''invalid cfg'') \<and>
   (GetOne m = mem_GetOne \<longrightarrow>
      ReadChainConfig m (fst (WriteChainConfig m Map.empty h None)) h =
        (None, Some ''ChainConfig are empty''))"
  by (simp add: WriteChainConfig_def ReadChainConfig_def mem_GetOne_def)

theorem WriteChainConfig_nil_witness:
  "WriteChainConfig down_deps 5 (fill_hash 0) None = (5, [], Some ''invalid cfg'') \<and>
   GetOne mem_deps = mem_GetOne \<and>
   ReadChainConfig mem_deps (fst (WriteChainConfig mem_deps Map.empty (fill_hash 0) None))
     (fill_hash 0) = (None, Some ''ChainConfig are empty'')"
  using WriteChainConfig_nil [of down_deps 5 "fill_hash 0" mem_deps]
  by (simp add: mem_deps_simps)

text \<open>C6. Corrupt bytes. When the lookup yields bytes that are not empty and
  \<open>Unmarshal\<close> fails on them with the error \<open>err\<close>, \<open>ReadChainConfig\<close> returns the error
  \<open>invalid chain config JSON err: \<close> followed by \<open>err\<close>, and no config: what
  \<open>Unmarshal\<close> had filled in before it failed is dropped.\<close>

theorem ReadChainConfig_DecodeFailure:
  assumes "GetOne d db ChainConfig_table (ConfigKey (ConfigPrefix d) h) = (data, None)"
    and "data \<noteq> []"
    and "Unmarshal d data (zero_ChainConfig d) = (partial, Some err)"
  shows "ReadChainConfig d db h = (None, Some (''invalid chain config JSON err: '' @ err))"
  using assms by (simp add: ReadChainConfig_def)

theorem ReadChainConfig_DecodeFailure_witness:
  "GetOne mem_deps
     [(ChainConfig_table, ConfigKey [0x63, 0x66, 0x67] (fill_hash 0)) \<mapsto> [0x7B, 1, 2]]
     ChainConfig_table (ConfigKey (ConfigPrefix mem_deps) (fill_hash 0)) = ([0x7B, 1, 2], None) \<and>
   [0x7B, 1, 2 :: byte] \<noteq> [] \<and>
   Unmarshal mem_deps [0x7B, 1, 2] (zero_ChainConfig mem_deps) =
     ([1, 2], Some ''unexpected end of JSON input'') \<and>
   ReadChainConfig mem_deps
     [(ChainConfig_table, ConfigKey [0x63, 0x66, 0x67] (fill_hash 0)) \<mapsto> [0x7B, 1, 2]]
     (fill_hash 0) =
     (None, Some ''invalid chain config JSON err: unexpected end of JSON input'')"
proof -
  have g: "GetOne mem_deps
     [(ChainConfig_table, ConfigKey [0x63, 0x66, 0x67] (fill_hash 0)) \<mapsto> [0x7B, 1, 2]]
     ChainConfig_table (ConfigKey (ConfigPrefix mem_deps) (fill_hash 0)) = ([0x7B, 1, 2], None)"
    by (simp add: mem_deps_simps mem_GetOne_def)
  have n: "[0x7B, 1, 2 :: byte] \<noteq> []"
    by simp
  have u: "Unmarshal mem_deps [0x7B, 1, 2] (zero_ChainConfig mem_deps) =
     ([1, 2], Some ''unexpected end of JSON input'')"
    by (simp add: mem_deps_simps brace_Unmarshal_def)
  from ReadChainConfig_DecodeFailure [OF g n u] g u show ?thesis
    by simp
qed

text \<open>C7. Failures are passed on. When \<open>GetOne\<close> fails with \<open>err\<close>, \<open>ReadChainConfig\<close>
  returns no config and one error, whose text ends with \<open>err\<close>. When \<open>Marshal\<close> fails
  with \<open>err\<close>, \<open>WriteChainConfig\<close> returns \<open>err\<close> itself and the store as it was given.
  When \<open>Put\<close> fails with \<open>err\<close>, \<open>WriteChainConfig\<close> returns \<open>err\<close> itself and the store
  as that one call of \<open>Put\<close> left it: nothing is tried again.\<close>

theorem accessor_failures_propagate:
  "(GetOne d db ChainConfig_table (ConfigKey (ConfigPrefix d) h) = (data, Some err) \<longrightarrow>
      ReadChainConfig d db h = (None, Some (''fetch ChainConfig from db ,error: '' @ err))) \<and>
   (Marshal d c = (data1, Some err1) \<longrightarrow>
      WriteChainConfig d db h (Some c) =
        (db, [(''Failed to JSON encode chain config'', err1)], Some err1)) \<and>
   (Marshal d c = (data2, None) \<and>
    Put d db ChainConfig_table (ConfigKey (ConfigPrefix d) h) data2 = (db', Some err2) \<longrightarrow>
      WriteChainConfig d db h (Some c) =
        (db', [(''Failed to store chain config'', err2)], Some err2))"
  by (simp add: ReadChainConfig_fetch_error WriteChainConfig_def)

theorem accessor_failures_propagate_witness:
  "GetOne down_deps 0 ChainConfig_table (ConfigKey (ConfigPrefix down_deps) (fill_hash 0)) =
     ([], Some ''EIO'') \<and>
   ReadChainConfig down_deps 0 (fill_hash 0) =
     (None, Some ''fetch ChainConfig from db ,error: EIO'') \<and>
   Marshal unencodable_deps [1] = ([], Some ''json: unsupported value'') \<and>
   WriteChainConfig unencodable_deps 0 (fill_hash 0) (Some [1]) =
     (0, [(''Failed to JSON encode chain config'', ''json: unsupported value'')],
      Some ''json: unsupported value'') \<and>
   Marshal down_deps [1] = ([0x7B, 1, 0x7D], None) \<and>
   Put down_deps 0 ChainConfig_table (ConfigKey (ConfigPrefix down_deps) (fill_hash 0))
     [0x7B, 1, 0x7D] = (1, Some ''EIO'') \<and>
   WriteChainConfig down_deps 0 (fill_hash 0) (Some [1]) =
     (1, [(''Failed to store chain config'', ''EIO'')], Some ''EIO'')"
proof -
  have g: "GetOne down_deps 0 ChainConfig_table
             (ConfigKey (ConfigPrefix down_deps) (fill_hash 0)) = ([], Some ''EIO'')"
    by (simp add: down_deps_simps)
  have m1: "Marshal unencodable_deps [1] = ([], Some ''json: unsupported value'')"
    by (simp add: unencodable_deps_def)
  have m2: "Marshal down_deps [1] = ([0x7B, 1, 0x7D], None)"
    by (simp add: down_deps_simps brace_Marshal_def)
  have p: "Put down_deps 0 ChainConfig_table (ConfigKey (ConfigPrefix down_deps) (fill_hash 0))
     [0x7B, 1, 0x7D] = (1, Some ''EIO'')"
    by (simp add: down_deps_simps)
  from accessor_failures_propagate
    [of down_deps 0 "fill_hash 0" "[]" "''EIO''" "[1]" "[]" "[]" "[0x7B, 1, 0x7D]" 1 "''EIO''"]
    g m2 p
  have a: "ReadChainConfig down_deps 0 (fill_hash 0) =
             (None, Some ''fetch ChainConfig from db ,error: EIO'')"
    and b: "WriteChainConfig down_deps 0 (fill_hash 0) (Some [1]) =
             (1, [(''Failed to store chain config'', ''EIO'')], Some ''EIO'')"
    by simp_all
  from accessor_failures_propagate
    [of unencodable_deps 0 "fill_hash 0" "[]" "[]" "[1]" "[]" "''json: unsupported value''"] m1
  have c: "WriteChainConfig unencodable_deps 0 (fill_hash 0) (Some [1]) =
     (0, [(''Failed to JSON encode chain config'', ''json: unsupported value'')],
      Some ''json: unsupported value'')"
    by simp
  from g m1 m2 p a b c show ?thesis by simp
qed

text \<open>C8. Idempotence. On a store that is a key-value map and for a config \<open>c\<close> whose
  encoding is lossless, after a \<open>WriteChainConfig\<close> of \<open>c\<close> without error a second one
  returns the same store and no error, and \<open>ReadChainConfig\<close> returns \<open>c\<close>.\<close>

theorem WriteChainConfig_idempotent:
  assumes "GetOne d = mem_GetOne" and "Put d = mem_Put"
    and "lossless_at d c"
    and "WriteChainConfig d db h (Some c) = (db1, logged, None)"
  shows "WriteChainConfig d db1 h (Some c) = (db1, [], None) \<and>
         ReadChainConfig d db1 h = (Some c, None)"
proof -
  from WriteChainConfig_ok [OF assms(4)] obtain data where
    m: "Marshal d c = (data, None)" by blast
  have db1: "db1 = db((ChainConfig_table, ConfigKey (ConfigPrefix d) h) \<mapsto> data)"
    using assms(4) WriteChainConfig_mem [OF assms(2) m, of db h] by simp
  have twice: "WriteChainConfig d db1 h (Some c) = (db1, [], None)"
    using WriteChainConfig_mem [OF assms(2) m, of db1 h] by (simp add: db1)
  from assms(3) m have "data \<noteq> []" and "Unmarshal d data (zero_ChainConfig d) = (c, None)"
    by (simp_all add: lossless_at_def)
  then have "ReadChainConfig d db1 h = (Some c, None)"
    using ReadChainConfig_mem [OF assms(1), of db1 h data c] by (simp add: db1)
  with twice show ?thesis by simp
qed

theorem WriteChainConfig_idempotent_witness:
  "GetOne mem_deps = mem_GetOne \<and> Put mem_deps = mem_Put \<and> lossless_at mem_deps [1, 2] \<and>
   WriteChainConfig mem_deps Map.empty (fill_hash 3) (Some [1, 2]) =
     ([(ChainConfig_table, ConfigKey [0x63, 0x66, 0x67] (fill_hash 3)) \<mapsto> [0x7B, 1, 2, 0x7D]],
      [], None) \<and>
   WriteChainConfig mem_deps
     [(ChainConfig_table, ConfigKey [0x63, 0x66, 0x67] (fill_hash 3)) \<mapsto> [0x7B, 1, 2, 0x7D]]
     (fill_hash 3) (Some [1, 2]) =
     ([(ChainConfig_table, ConfigKey [0x63, 0x66, 0x67] (fill_hash 3)) \<mapsto> [0x7B, 1, 2, 0x7D]],
      [], None) \<and>
   ReadChainConfig mem_deps
     [(ChainConfig_table, ConfigKey [0x63, 0x66, 0x67] (fill_hash 3)) \<mapsto> [0x7B, 1, 2, 0x7D]]
     (fill_hash 3) = (Some [1, 2], None)"
proof -
  have w: "WriteChainConfig mem_deps Map.empty (fill_hash 3) (Some [1, 2]) =
     ([(ChainConfig_table, ConfigKey [0x63, 0x66, 0x67] (fill_hash 3)) \<mapsto> [0x7B, 1, 2, 0x7D]],
      [], None)"
    by (simp add: WriteChainConfig_def mem_deps_simps brace_Marshal_def mem_Put_def)
  from WriteChainConfig_idempotent
    [OF mem_deps_simps(1) mem_deps_simps(2) lossless_at_mem_deps w] w
  show ?thesis
    by (simp add: mem_deps_simps lossless_at_mem_deps)
qed

text \<open>C9. One of the two. \<open>ReadChainConfig\<close> never returns a nil config with a nil
  error, and never a config with an error. On a store that is a key-value map, a key
  that is absent and a key whose value is empty give the same result: no config and
  the error \<open>ChainConfig are empty\<close>.\<close>

theorem ReadChainConfig_config_xor_error:
  "ReadChainConfig d db h \<noteq> (None, None) \<and>
   (\<forall>config err. ReadChainConfig d db h \<noteq> (Some config, Some err)) \<and>
   (GetOne m = mem_GetOne \<and>
    db_absent (ChainConfig_table, ConfigKey (ConfigPrefix m) h) = None \<and>
    db_empty (ChainConfig_table, ConfigKey (ConfigPrefix m) h) = Some [] \<longrightarrow>
      ReadChainConfig m db_absent h = (None, Some ''ChainConfig are empty'') \<and>
      ReadChainConfig m db_empty h = (None, Some ''ChainConfig are empty''))"
  by (auto simp: ReadChainConfig_def mem_GetOne_def split: prod.splits option.splits)

theorem ReadChainConfig_config_xor_error_witness:
  "ReadChainConfig mem_deps Map.empty (fill_hash 0) \<noteq> (None, None) \<and>
   GetOne mem_deps = mem_GetOne \<and>
   Map.empty (ChainConfig_table, ConfigKey (ConfigPrefix mem_deps) (fill_hash 0)) =
     (None :: bytes option) \<and>
   [(ChainConfig_table, ConfigKey [0x63, 0x66, 0x67] (fill_hash 0)) \<mapsto> ([] :: bytes)]
     (ChainConfig_table, ConfigKey (ConfigPrefix mem_deps) (fill_hash 0)) = Some [] \<and>
   ReadChainConfig mem_deps Map.empty (fill_hash 0) = (None, Some ''ChainConfig are empty'') \<and>
   ReadChainConfig mem_deps
     [(ChainConfig_table, ConfigKey [0x63, 0x66, 0x67] (fill_hash 0)) \<mapsto> []] (fill_hash 0) =
     (None, Some ''ChainConfig are empty'')"
proof -
  have e: "[(ChainConfig_table, ConfigKey [0x63, 0x66, 0x67] (fill_hash 0)) \<mapsto> ([] :: bytes)]
     (ChainConfig_table, ConfigKey (ConfigPrefix mem_deps) (fill_hash 0)) = Some []"
    by (simp add: mem_deps_simps)
  from ReadChainConfig_config_xor_error
    [of mem_deps Map.empty "fill_hash 0" mem_deps Map.empty
       "[(ChainConfig_table, ConfigKey [0x63, 0x66, 0x67] (fill_hash 0)) \<mapsto> []]"] e
  show ?thesis
    by (simp add: mem_deps_simps)
qed

text \<open>C10, as the claim states it, fails where the temporary directory cannot be
  created: for the zero-valued config on the read-only file system the resolved key
  directory is empty, both \<open>DataDir\<close> and \<open>KeyStoreDir\<close> are empty, and \<open>getKeyStoreDir\<close>
  reports \<open>isEphemeral = False\<close>, beside the error.\<close>

theorem getKeyStoreDir_isEphemeral_counterexample:
  "DataDir zero_NodeConfig = [] \<and> KeyStoreDir zero_NodeConfig = [] \<and>
   KeyDirConfig unix_os readonly_fs zero_NodeConfig = ([], None) \<and>
   getKeyStoreDir unix_os readonly_fs zero_NodeConfig =
     (([], False, Some ''mkdir: read-only file system''), readonly_fs)"
  by (simp add: getKeyStoreDir_def KeyDirConfig_def zero_NodeConfig_def unix_os_def
      unix_IsAbs_def fs_MkdirTemp_def readonly_fs_def)

text \<open>C10, amended. \<open>KeyDirConfig\<close> returns \<open>KeyStoreDir\<close> as it is, and no error, when
  it is an absolute path. When \<open>getKeyStoreDir\<close> returns no error, \<open>isEphemeral\<close> is
  true exactly when the resolved key directory is empty, which for a \<open>path/filepath\<close>
  as \<open>filepath_ok\<close> describes it is exactly when both \<open>DataDir\<close> and \<open>KeyStoreDir\<close> are
  empty, and then the directory returned is the one \<open>MkdirTemp\<close> has created. Every
  failure is returned as the empty path, \<open>isEphemeral = False\<close> and the error of the
  call that failed, with the file system as that call left it: a failure of
  \<open>KeyDirConfig\<close>, a failure of \<open>MkdirTemp\<close> on an empty resolved directory, and a
  failure of \<open>MkdirAll\<close> on the temporary or on the resolved directory. So whenever
  \<open>getKeyStoreDir\<close> returns an error, the path is empty and \<open>isEphemeral\<close> is false.\<close>

theorem getKeyStoreDir_isEphemeral:
  "(filepath_IsAbs os (KeyStoreDir c) \<longrightarrow> KeyDirConfig os fs c = (KeyStoreDir c, None)) \<and>
   (getKeyStoreDir os fs c = ((keydir, isEphemeral, None), fs') \<longrightarrow>
      isEphemeral = (fst (KeyDirConfig os fs c) = []) \<and>
      (filepath_ok os fs c \<longrightarrow> isEphemeral = (DataDir c = [] \<and> KeyStoreDir c = [])) \<and>
      (isEphemeral \<longrightarrow>
         (\<exists>fs1. os_MkdirTemp os fs [] ''N42-keystore'' = ((keydir, None), fs1)))) \<and>
   (getKeyStoreDir os fs c = ((keydir1, isEphemeral1, Some err), fs1') \<longrightarrow>
      keydir1 = [] \<and> \<not> isEphemeral1) \<and>
   (KeyDirConfig os fs c = (keydir2, Some err2) \<longrightarrow>
      getKeyStoreDir os fs c = (([], False, Some err2), fs)) \<and>
   (KeyDirConfig os fs c = ([], None) \<and>
    os_MkdirTemp os fs [] ''N42-keystore'' = ((tmp3, Some err3), fs3) \<longrightarrow>
      getKeyStoreDir os fs c = (([], False, Some err3), fs3)) \<and>
   (KeyDirConfig os fs c = ([], None) \<and>
    os_MkdirTemp os fs [] ''N42-keystore'' = ((tmp4, None), fs4) \<and>
    os_MkdirAll os fs4 tmp4 448 = (Some err4, fs4') \<longrightarrow>
      getKeyStoreDir os fs c = (([], False, Some err4), fs4')) \<and>
   (KeyDirConfig os fs c = (keydir5, None) \<and> keydir5 \<noteq> [] \<and>
    os_MkdirAll os fs keydir5 448 = (Some err5, fs5) \<longrightarrow>
      getKeyStoreDir os fs c = (([], False, Some err5), fs5)) \<and>
   (KeyDirConfig os fs c = ([], None) \<and>
    os_MkdirTemp os fs [] ''N42-keystore'' = ((tmp6, None), fs6) \<and>
    os_MkdirAll os fs6 tmp6 448 = (None, fs6') \<longrightarrow>
      getKeyStoreDir os fs c = ((tmp6, True, None), fs6')) \<and>
   (KeyDirConfig os fs c = (keydir7, None) \<and> keydir7 \<noteq> [] \<and>
    os_MkdirAll os fs keydir7 448 = (None, fs7) \<longrightarrow>
      getKeyStoreDir os fs c = ((keydir7, False, None), fs7))"
proof (intro conjI impI)
  assume "filepath_IsAbs os (KeyStoreDir c)"
  then show "KeyDirConfig os fs c = (KeyStoreDir c, None)"
    by (simp add: KeyDirConfig_def)
next
  assume "getKeyStoreDir os fs c = ((keydir, isEphemeral, None), fs')"
  then show "isEphemeral = (fst (KeyDirConfig os fs c) = [])"
    by (auto simp: getKeyStoreDir_def split: prod.splits option.splits if_splits)
next
  assume ok: "getKeyStoreDir os fs c = ((keydir, isEphemeral, None), fs')"
    and fp: "filepath_ok os fs c"
  from ok have e: "isEphemeral = (fst (KeyDirConfig os fs c) = [])"
    and n: "snd (KeyDirConfig os fs c) = None"
    by (auto simp: getKeyStoreDir_def split: prod.splits option.splits if_splits)
  from fp n have "(fst (KeyDirConfig os fs c) = []) = (DataDir c = [] \<and> KeyStoreDir c = [])"
    by (auto simp: filepath_ok_def KeyDirConfig_def split: prod.splits option.splits if_splits)
  with e show "isEphemeral = (DataDir c = [] \<and> KeyStoreDir c = [])"
    by simp
next
  assume "getKeyStoreDir os fs c = ((keydir, isEphemeral, None), fs')" and "isEphemeral"
  then show "\<exists>fs1. os_MkdirTemp os fs [] ''N42-keystore'' = ((keydir, None), fs1)"
    by (auto simp: getKeyStoreDir_def split: prod.splits option.splits if_splits)
next
  assume "getKeyStoreDir os fs c = ((keydir1, isEphemeral1, Some err), fs1')"
  then show "keydir1 = []"
    by (auto simp: getKeyStoreDir_def split: prod.splits option.splits if_splits)
next
  assume "getKeyStoreDir os fs c = ((keydir1, isEphemeral1, Some err), fs1')"
  then show "\<not> isEphemeral1"
    by (auto simp: getKeyStoreDir_def split: prod.splits option.splits if_splits)
next
  assume "KeyDirConfig os fs c = (keydir2, Some err2)"
  then show "getKeyStoreDir os fs c = (([], False, Some err2), fs)"
    by (simp add: getKeyStoreDir_def)
next
  assume "KeyDirConfig os fs c = ([], None) \<and>
    os_MkdirTemp os fs [] ''N42-keystore'' = ((tmp3, Some err3), fs3)"
  then show "getKeyStoreDir os fs c = (([], False, Some err3), fs3)"
    by (simp add: getKeyStoreDir_def)
next
  assume "KeyDirConfig os fs c = ([], None) \<and>
    os_MkdirTemp os fs [] ''N42-keystore'' = ((tmp4, None), fs4) \<and>
    os_MkdirAll os fs4 tmp4 448 = (Some err4, fs4')"
  then show "getKeyStoreDir os fs c = (([], False, Some err4), fs4')"
    by (simp add: getKeyStoreDir_def)
next
  assume "KeyDirConfig os fs c = (keydir5, None) \<and> keydir5 \<noteq> [] \<and>
    os_MkdirAll os fs keydir5 448 = (Some err5, fs5)"
  then show "getKeyStoreDir os fs c = (([], False, Some err5), fs5)"
    by (simp add: getKeyStoreDir_def)
next
  assume "KeyDirConfig os fs c = ([], None) \<and>
    os_MkdirTemp os fs [] ''N42-keystore'' = ((tmp6, None), fs6) \<and>
    os_MkdirAll os fs6 tmp6 448 = (None, fs6')"
  then show "getKeyStoreDir os fs c = ((tmp6, True, None), fs6')"
    by (simp add: getKeyStoreDir_def)
next
  assume "KeyDirConfig os fs c = (keydir7, None) \<and> keydir7 \<noteq> [] \<and>
    os_MkdirAll os fs keydir7 448 = (None, fs7)"
  then show "getKeyStoreDir os fs c = ((keydir7, False, None), fs7)"
    by (simp add: getKeyStoreDir_def)
qed

theorem getKeyStoreDir_isEphemeral_witness:
  "filepath_IsAbs unix_os (KeyStoreDir (zero_NodeConfig\<lparr>KeyStoreDir := ''/ks''\<rparr>)) \<and>
   KeyDirConfig unix_os writable_fs (zero_NodeConfig\<lparr>KeyStoreDir := ''/ks''\<rparr>) = (''/ks'', None) \<and>
   getKeyStoreDir unix_os writable_fs zero_NodeConfig =
     ((''/tmp/N42-keystore1'', True, None), writable_fs\<lparr>dirs := [''/tmp/N42-keystore1'']\<rparr>) \<and>
   filepath_ok unix_os writable_fs zero_NodeConfig \<and>
   fst (KeyDirConfig unix_os writable_fs zero_NodeConfig) = [] \<and>
   DataDir zero_NodeConfig = [] \<and> KeyStoreDir zero_NodeConfig = [] \<and>
   (\<exists>fs1. os_MkdirTemp unix_os writable_fs [] ''N42-keystore'' =
      ((''/tmp/N42-keystore1'', None), fs1)) \<and>
   KeyDirConfig unix_os lost_fs (zero_NodeConfig\<lparr>KeyStoreDir := ''ks''\<rparr>) =
     ([], Some ''getwd: no such file or directory'') \<and>
   getKeyStoreDir unix_os lost_fs (zero_NodeConfig\<lparr>KeyStoreDir := ''ks''\<rparr>) =
     (([], False, Some ''getwd: no such file or directory''), lost_fs) \<and>
   KeyDirConfig unix_os readonly_fs zero_NodeConfig = ([], None) \<and>
   os_MkdirTemp unix_os readonly_fs [] ''N42-keystore'' =
     (([], Some ''mkdir: read-only file system''), readonly_fs) \<and>
   getKeyStoreDir unix_os readonly_fs zero_NodeConfig =
     (([], False, Some ''mkdir: read-only file system''), readonly_fs) \<and>
   KeyDirConfig denied_os writable_fs zero_NodeConfig = ([], None) \<and>
   os_MkdirTemp denied_os writable_fs [] ''N42-keystore'' =
     ((''/tmp/N42-keystore1'', None), writable_fs\<lparr>dirs := [''/tmp/N42-keystore1'']\<rparr>) \<and>
   os_MkdirAll denied_os (writable_fs\<lparr>dirs := [''/tmp/N42-keystore1'']\<rparr>)
     ''/tmp/N42-keystore1'' 448 =
     (Some ''mkdir: permission denied'', writable_fs\<lparr>dirs := [''/tmp/N42-keystore1'']\<rparr>) \<and>
   getKeyStoreDir denied_os writable_fs zero_NodeConfig =
     (([], False, Some ''mkdir: permission denied''),
      writable_fs\<lparr>dirs := [''/tmp/N42-keystore1'']\<rparr>) \<and>
   KeyDirConfig unix_os readonly_fs (zero_NodeConfig\<lparr>KeyStoreDir := ''/ks''\<rparr>) = (''/ks'', None) \<and>
   ''/ks'' \<noteq> [] \<and>
   os_MkdirAll unix_os readonly_fs ''/ks'' 448 =
     (Some ''mkdir: read-only file system'', readonly_fs) \<and>
   getKeyStoreDir unix_os readonly_fs (zero_NodeConfig\<lparr>KeyStoreDir := ''/ks''\<rparr>) =
     (([], False, Some ''mkdir: read-only file system''), readonly_fs) \<and>
   os_MkdirAll unix_os writable_fs ''/ks'' 448 = (None, writable_fs\<lparr>dirs := [''/ks'']\<rparr>) \<and>
   getKeyStoreDir unix_os writable_fs (zero_NodeConfig\<lparr>KeyStoreDir := ''/ks''\<rparr>) =
     ((''/ks'', False, None), writable_fs\<lparr>dirs := [''/ks'']\<rparr>)"
proof -
  have a: "filepath_IsAbs unix_os (KeyStoreDir (zero_NodeConfig\<lparr>KeyStoreDir := ''/ks''\<rparr>))"
    by (simp add: unix_os_def unix_IsAbs_def)
  have f: "filepath_ok unix_os writable_fs zero_NodeConfig"
    by (simp add: filepath_ok_def zero_NodeConfig_def unix_os_def unix_IsAbs_def unix_Abs_def
        writable_fs_def)
  have kz: "KeyDirConfig unix_os writable_fs zero_NodeConfig = ([], None)"
    by (simp add: KeyDirConfig_def zero_NodeConfig_def unix_os_def unix_IsAbs_def)
  have tw: "os_MkdirTemp unix_os writable_fs [] ''N42-keystore'' =
     ((''/tmp/N42-keystore1'', None), writable_fs\<lparr>dirs := [''/tmp/N42-keystore1'']\<rparr>)"
    by (simp add: unix_os_def fs_MkdirTemp_def writable_fs_def Let_def)
  have aw: "os_MkdirAll unix_os (writable_fs\<lparr>dirs := [''/tmp/N42-keystore1'']\<rparr>)
     ''/tmp/N42-keystore1'' 448 = (None, writable_fs\<lparr>dirs := [''/tmp/N42-keystore1'']\<rparr>)"
    by (simp add: unix_os_def fs_MkdirAll_def writable_fs_def)
  have kl: "KeyDirConfig unix_os lost_fs (zero_NodeConfig\<lparr>KeyStoreDir := ''ks''\<rparr>) =
     ([], Some ''getwd: no such file or directory'')"
    by (simp add: KeyDirConfig_def zero_NodeConfig_def unix_os_def unix_IsAbs_def unix_Abs_def
        lost_fs_def)
  have kr: "KeyDirConfig unix_os readonly_fs zero_NodeConfig = ([], None)"
    by (simp add: KeyDirConfig_def zero_NodeConfig_def unix_os_def unix_IsAbs_def)
  have tr: "os_MkdirTemp unix_os readonly_fs [] ''N42-keystore'' =
     (([], Some ''mkdir: read-only file system''), readonly_fs)"
    by (simp add: unix_os_def fs_MkdirTemp_def readonly_fs_def)
  have kd: "KeyDirConfig denied_os writable_fs zero_NodeConfig = ([], None)"
    by (simp add: KeyDirConfig_def zero_NodeConfig_def denied_os_def unix_os_def unix_IsAbs_def)
  have td: "os_MkdirTemp denied_os writable_fs [] ''N42-keystore'' =
     ((''/tmp/N42-keystore1'', None), writable_fs\<lparr>dirs := [''/tmp/N42-keystore1'']\<rparr>)"
    by (simp add: denied_os_def unix_os_def fs_MkdirTemp_def writable_fs_def Let_def)
  have ad: "os_MkdirAll denied_os (writable_fs\<lparr>dirs := [''/tmp/N42-keystore1'']\<rparr>)
     ''/tmp/N42-keystore1'' 448 =
     (Some ''mkdir: permission denied'', writable_fs\<lparr>dirs := [''/tmp/N42-keystore1'']\<rparr>)"
    by (simp add: denied_os_def)
  have ne: "''/ks'' \<noteq> []"
    by simp
  have ar: "os_MkdirAll unix_os readonly_fs ''/ks'' 448 =
     (Some ''mkdir: read-only file system'', readonly_fs)"
    by (simp add: unix_os_def fs_MkdirAll_def readonly_fs_def)
  have ak: "os_MkdirAll unix_os writable_fs ''/ks'' 448 = (None, writable_fs\<lparr>dirs := [''/ks'']\<rparr>)"
    by (simp add: unix_os_def fs_MkdirAll_def writable_fs_def)
  note T = getKeyStoreDir_isEphemeral
  note ks = T [where os = unix_os and c = "zero_NodeConfig\<lparr>KeyStoreDir := ''/ks''\<rparr>"]
  note zr = T [where os = unix_os and c = zero_NodeConfig]
  have 1: "KeyDirConfig unix_os writable_fs (zero_NodeConfig\<lparr>KeyStoreDir := ''/ks''\<rparr>) =
      (''/ks'', None)"
    using ks [where fs = writable_fs, THEN conjunct1, THEN mp, OF a] by simp
  have 7: "getKeyStoreDir unix_os writable_fs (zero_NodeConfig\<lparr>KeyStoreDir := ''/ks''\<rparr>) =
     ((''/ks'', False, None), writable_fs\<lparr>dirs := [''/ks'']\<rparr>)"
    by (rule ks [THEN conjunct2, THEN conjunct2, THEN conjunct2, THEN conjunct2, THEN conjunct2,
          THEN conjunct2, THEN conjunct2, THEN conjunct2, THEN mp, OF conjI [OF 1 conjI [OF ne ak]]])
  have g: "getKeyStoreDir unix_os writable_fs zero_NodeConfig =
     ((''/tmp/N42-keystore1'', True, None), writable_fs\<lparr>dirs := [''/tmp/N42-keystore1'']\<rparr>)"
    by (rule zr [THEN conjunct2, THEN conjunct2, THEN conjunct2, THEN conjunct2, THEN conjunct2,
          THEN conjunct2, THEN conjunct2, THEN conjunct1, THEN mp,
          OF conjI [OF kz conjI [OF tw aw]]])
  note s = zr [THEN conjunct2, THEN conjunct1, THEN mp, OF g]
  have 2: "fst (KeyDirConfig unix_os writable_fs zero_NodeConfig) = []"
    using s [THEN conjunct1] by simp
  have dd: "DataDir zero_NodeConfig = []" and kd0: "KeyStoreDir zero_NodeConfig = []"
    using s [THEN conjunct2, THEN conjunct1, THEN mp, OF f] by simp_all
  have 4: "\<exists>fs1. os_MkdirTemp unix_os writable_fs [] ''N42-keystore'' =
      ((''/tmp/N42-keystore1'', None), fs1)"
    by (rule s [THEN conjunct2, THEN conjunct2, THEN mp, OF TrueI])
  have l: "getKeyStoreDir unix_os lost_fs (zero_NodeConfig\<lparr>KeyStoreDir := ''ks''\<rparr>) =
     (([], False, Some ''getwd: no such file or directory''), lost_fs)"
    by (rule T [THEN conjunct2, THEN conjunct2, THEN conjunct2, THEN conjunct1, THEN mp, OF kl])
  have r: "getKeyStoreDir unix_os readonly_fs zero_NodeConfig =
     (([], False, Some ''mkdir: read-only file system''), readonly_fs)"
    by (rule zr [THEN conjunct2, THEN conjunct2, THEN conjunct2, THEN conjunct2, THEN conjunct1,
          THEN mp, OF conjI [OF kr tr]])
  have d: "getKeyStoreDir denied_os writable_fs zero_NodeConfig =
     (([], False, Some ''mkdir: permission denied''),
      writable_fs\<lparr>dirs := [''/tmp/N42-keystore1'']\<rparr>)"
    by (rule T [THEN conjunct2, THEN conjunct2, THEN conjunct2, THEN conjunct2, THEN conjunct2,
          THEN conjunct1, THEN mp, OF conjI [OF kd conjI [OF td ad]]])
  have kk: "KeyDirConfig unix_os readonly_fs (zero_NodeConfig\<lparr>KeyStoreDir := ''/ks''\<rparr>) =
      (''/ks'', None)"
    using ks [where fs = readonly_fs, THEN conjunct1, THEN mp, OF a] by simp
  have 5: "getKeyStoreDir unix_os readonly_fs (zero_NodeConfig\<lparr>KeyStoreDir := ''/ks''\<rparr>) =
     (([], False, Some ''mkdir: read-only file system''), readonly_fs)"
    by (rule ks [THEN conjunct2, THEN conjunct2, THEN conjunct2, THEN conjunct2, THEN conjunct2,
          THEN conjunct2, THEN conjunct1, THEN mp, OF conjI [OF kk conjI [OF ne ar]]])
  show ?thesis
    by (intro conjI) (rule a 1 g f 2 dd kd0 4 kl l kr tr r kd td ad d kk ne ar 5 ak 7)+
qed

end
